theory Spec2Isabelle
  imports Complex_Main
begin

section \<open>Python floats\<close>

text \<open>
  A particle's \<open>weight\<close> and \<open>twist_amount\<close> are Python floats: IEEE 754 binary64
  numbers. A float is a real number, plus or minus infinity, or NaN; the finite floats
  are the reals \<open>m * 2 ^ k\<close> with a significand \<open>m\<close> of at most 53 bits and an exponent
  \<open>k\<close> of at least \<open>-1074\<close>, below \<open>2 ^ 1024\<close> in magnitude. An operation on finite
  floats returns the exact result rounded to the nearest float, a tie going to the
  float with the even significand, and an infinity when the rounded result is out of
  range. The two signed zeros are one value here.
\<close>

datatype pyfloat = Finite real | PosInf | NegInf | NaN

text \<open>The nearest integer, a tie going to the even one.\<close>

definition round_even :: "real \<Rightarrow> int" where
  "round_even x =
     (let n = \<lfloor>x\<rfloor>; d = x - of_int n in
      if d < 1/2 then n else if 1/2 < d then n + 1 else if even n then n else n + 1)"

text \<open>
  Rounding a real to a float. The exponent \<open>e\<close> of \<open>x\<close> is that of the power of two at
  or below \<open>\<bar>x\<bar>\<close>, and at least \<open>-1022\<close> (below it the floats are subnormal and evenly
  spaced); the floats around \<open>x\<close> are the multiples of \<open>q = 2 ^ (e - 52)\<close>.
\<close>

definition ieee_round :: "real \<Rightarrow> pyfloat" where
  "ieee_round x =
     (if x = 0 then Finite 0
      else
        (let e = max \<lfloor>log 2 \<bar>x\<bar>\<rfloor> (- 1022);
             q = 2 powi (e - 52);
             y = of_int (round_even (x / q)) * q
         in if 2 ^ 1024 \<le> \<bar>y\<bar> then (if 0 < x then PosInf else NegInf) else Finite y))"

text \<open>The real is a float: rounding leaves it as it is.\<close>

definition is_double :: "real \<Rightarrow> bool" where
  "is_double x = (ieee_round x = Finite x)"

text \<open>
  The float sum of a float and a finite amount needs no rounding: both are floats,
  and so is their exact sum. An infinity and NaN take any finite float as it is.
\<close>

definition adds_exactly :: "pyfloat \<Rightarrow> real \<Rightarrow> bool" where
  "adds_exactly a y =
     (case a of
        Finite x \<Rightarrow> is_double x \<and> is_double y \<and> is_double (x + y)
      | _ \<Rightarrow> is_double y)"

text \<open>\<open>a + b\<close> on floats.\<close>

fun fadd :: "pyfloat \<Rightarrow> pyfloat \<Rightarrow> pyfloat" where
  "fadd NaN _ = NaN"
| "fadd _ NaN = NaN"
| "fadd PosInf NegInf = NaN"
| "fadd NegInf PosInf = NaN"
| "fadd PosInf _ = PosInf"
| "fadd _ PosInf = PosInf"
| "fadd NegInf _ = NegInf"
| "fadd _ NegInf = NegInf"
| "fadd (Finite a) (Finite b) = ieee_round (a + b)"

text \<open>\<open>-a\<close> on floats.\<close>

fun fneg :: "pyfloat \<Rightarrow> pyfloat" where
  "fneg (Finite a) = Finite (- a)"
| "fneg PosInf = NegInf"
| "fneg NegInf = PosInf"
| "fneg NaN = NaN"

text \<open>\<open>a - b\<close> on floats.\<close>

definition fsub :: "pyfloat \<Rightarrow> pyfloat \<Rightarrow> pyfloat" where
  "fsub a b = fadd a (fneg b)"

text \<open>\<open>a * b\<close> on floats: an infinity times zero is NaN, otherwise signs multiply.\<close>

fun fmul :: "pyfloat \<Rightarrow> pyfloat \<Rightarrow> pyfloat" where
  "fmul NaN _ = NaN"
| "fmul _ NaN = NaN"
| "fmul (Finite a) (Finite b) = ieee_round (a * b)"
| "fmul PosInf (Finite b) = (if b = 0 then NaN else if 0 < b then PosInf else NegInf)"
| "fmul NegInf (Finite b) = (if b = 0 then NaN else if 0 < b then NegInf else PosInf)"
| "fmul (Finite a) PosInf = (if a = 0 then NaN else if 0 < a then PosInf else NegInf)"
| "fmul (Finite a) NegInf = (if a = 0 then NaN else if 0 < a then NegInf else PosInf)"
| "fmul PosInf PosInf = PosInf"
| "fmul PosInf NegInf = NegInf"
| "fmul NegInf PosInf = NegInf"
| "fmul NegInf NegInf = PosInf"

text \<open>The order an ascending sort of floats goes by: NaN counts as the greatest value.\<close>

fun fle :: "pyfloat \<Rightarrow> pyfloat \<Rightarrow> bool" where
  "fle _ NaN = True"
| "fle NaN _ = False"
| "fle NegInf _ = True"
| "fle _ NegInf = False"
| "fle _ PosInf = True"
| "fle PosInf _ = False"
| "fle (Finite a) (Finite b) = (a \<le> b)"

section \<open>Exceptions\<close>

datatype error = NotImplementedError | RuntimeError | TypeError | IndexError | NameError

section \<open>The particle: class \<open>Model\<close>\<close>

text \<open>
  The six attributes that \<open>__init__\<close> sets are fields of the record; \<open>attrs\<close> is the
  rest of \<open>__dict__\<close>, the attributes a subclass adds, in insertion order. Attribute
  values are Python values: atoms, or references into a store of mutable objects.
\<close>

type_synonym addr = nat

datatype pyval =
    VNone
  | VBool bool
  | VInt int
  | VFloat pyfloat
  | VStr string
  | VRef addr

record Model =
  weight :: pyfloat
  finished :: bool
  mode :: string
  beam_idx :: int
  force_eos :: bool
  twist_amount :: pyfloat
  attrs :: "(string \<times> pyval) list"

text \<open>\<open>Model.__init__\<close>: a base particle has the six attributes and no other.\<close>

definition Model_init :: Model where
  "Model_init =
     \<lparr>weight = Finite 0, finished = False, mode = ''sample'', beam_idx = 0,
      force_eos = False, twist_amount = Finite 0, attrs = []\<rparr>"

definition reset :: "Model \<Rightarrow> Model" where
  "reset self =
     self\<lparr>weight := Finite 0, finished := False, mode := ''sample'', beam_idx := 0,
          force_eos := False, twist_amount := Finite 0\<rparr>"


definition score :: "Model \<Rightarrow> pyfloat \<Rightarrow> Model" where
  "score self s = self\<lparr>weight := fadd (weight self) s\<rparr>"

definition twist :: "Model \<Rightarrow> pyfloat \<Rightarrow> Model" where
  "twist self amt = score (self\<lparr>twist_amount := fadd (twist_amount self) amt\<rparr>) amt"

definition untwist :: "Model \<Rightarrow> Model" where
  "untwist self = (score self (fneg (twist_amount self)))\<lparr>twist_amount := Finite 0\<rparr>"

definition finish :: "Model \<Rightarrow> Model" where
  "finish self = (untwist self)\<lparr>finished := True\<rparr>"

definition done_stepping :: "Model \<Rightarrow> bool" where
  "done_stepping self = finished self"

text \<open>\<open>Model.step\<close> of the base class: it returns \<open>None\<close> and changes nothing, or raises.\<close>

definition step :: "Model \<Rightarrow> error + Model" where
  "step self = (if \<not> done_stepping self then Inl NotImplementedError else Inr self)"

definition start :: "Model \<Rightarrow> Model" where
  "start self = self"

definition condition :: "Model \<Rightarrow> bool \<Rightarrow> Model" where
  "condition self b = (if \<not> b then finish (score self NegInf) else self)"

section \<open>The distribution capability\<close>

text \<open>
  A distribution is any object with the methods \<open>sample\<close>, \<open>log_prob\<close> and \<open>argmax\<close>.
  A method call may draw random numbers, change state on the distribution's side and
  raise: it is a function of a world \<open>'w\<close> that returns an error or a value, and the
  next world. The particle is no part of that world: a distribution never calls back
  into the particle.

  \<open>argmax\<close> is specified to return a pair; the code unpacks whatever comes back, so the
  model keeps both shapes of a return value.
\<close>

type_synonym ('a, 'w) call = "'w \<Rightarrow> (error + 'a) \<times> 'w"

datatype 'v argmax_result = RetPair 'v pyfloat | RetBare 'v

record ('v, 'w) Distribution =
  dist_sample :: "('v \<times> pyfloat, 'w) call"
  dist_log_prob :: "'v \<Rightarrow> (pyfloat, 'w) call"
  dist_argmax :: "int \<Rightarrow> ('v argmax_result, 'w) call"

text \<open>The asynchronous counterparts; awaiting one is calling it and taking its result.\<close>

record ('v, 'w) AsyncDistribution = "('v, 'w) Distribution" +
  dist_sample_async :: "('v \<times> pyfloat, 'w) call"
  dist_log_prob_async :: "'v \<Rightarrow> (pyfloat, 'w) call"

section \<open>Observing and sampling\<close>

text \<open>
  A method of the particle that calls a distribution returns its value together with
  the particle after the call; when an exception propagates, the particle is as it was.
\<close>

definition observe ::
  "Model \<Rightarrow> ('v, 'w, 'z) Distribution_scheme \<Rightarrow> 'v \<Rightarrow> ('v \<times> Model, 'w) call" where
  "observe self dst x w =
     (case dist_log_prob dst x w of
        (Inl e, w1) \<Rightarrow> (Inl e, w1)
      | (Inr lp, w1) \<Rightarrow> (Inr (x, score self lp), w1))"

definition observe_async ::
  "Model \<Rightarrow> ('v, 'w, 'z) AsyncDistribution_scheme \<Rightarrow> 'v \<Rightarrow> ('v \<times> Model, 'w) call" where
  "observe_async self dst x w =
     (case dist_log_prob_async dst x w of
        (Inl e, w1) \<Rightarrow> (Inl e, w1)
      | (Inr lp, w1) \<Rightarrow> (Inr (x, score self lp), w1))"

definition sample_async ::
  "Model \<Rightarrow> ('v, 'w, 'z) AsyncDistribution_scheme \<Rightarrow>
   ('v, 'w, 'z) AsyncDistribution_scheme option \<Rightarrow> ('v \<times> Model, 'w) call" where
  "sample_async self dst proposal w =
     (case proposal of
        None \<Rightarrow>
          (case dist_sample_async dst w of
             (Inl e, w1) \<Rightarrow> (Inl e, w1)
           | (Inr (x, _), w1) \<Rightarrow> (Inr (x, self), w1))
      | Some prp \<Rightarrow>
          (case dist_sample_async prp w of
             (Inl e, w1) \<Rightarrow> (Inl e, w1)
           | (Inr (x, q), w1) \<Rightarrow>
               (case dist_log_prob_async dst x w1 of
                  (Inl e, w2) \<Rightarrow> (Inl e, w2)
                | (Inr lp, w2) \<Rightarrow> (Inr (x, score self (fsub lp q)), w2))))"

definition sample ::
  "Model \<Rightarrow> ('v, 'w, 'z) Distribution_scheme \<Rightarrow>
   ('v, 'w, 'z) Distribution_scheme option \<Rightarrow> ('v \<times> Model, 'w) call" where
  "sample self dst proposal w =
     (if mode self = ''beam'' then
        (let d = (case proposal of None \<Rightarrow> dst | Some prp \<Rightarrow> prp) in
         case dist_argmax d (beam_idx self) w of
           (Inl e, w1) \<Rightarrow> (Inl e, w1)
         | (Inr (RetBare _), w1) \<Rightarrow> (Inl TypeError, w1)
         | (Inr (RetPair x wt), w1) \<Rightarrow>
             (case proposal of
                Some _ \<Rightarrow>
                  (case dist_log_prob dst x w1 of
                     (Inl e, w2) \<Rightarrow> (Inl e, w2)
                   | (Inr lp, w2) \<Rightarrow> (Inr (x, score self lp), w2))
              | None \<Rightarrow> (Inr (x, score self wt), w1)))
      else
        (case proposal of
           None \<Rightarrow>
             (case dist_sample dst w of
                (Inl e, w1) \<Rightarrow> (Inl e, w1)
              | (Inr (x, _), w1) \<Rightarrow> (Inr (x, self), w1))
         | Some prp \<Rightarrow>
             (case dist_sample prp w of
                (Inl e, w1) \<Rightarrow> (Inl e, w1)
              | (Inr (x, q), w1) \<Rightarrow>
                  (case dist_log_prob dst x w1 of
                     (Inl e, w2) \<Rightarrow> (Inl e, w2)
                   | (Inr lp, w2) \<Rightarrow> (Inr (x, score self (fsub lp q)), w2)))))"

section \<open>The geometric distribution\<close>

text \<open>
  The NumPy module, as far as \<open>geometric.py\<close> uses it: \<open>np.log\<close> and the sampler
  \<open>np.random.geometric\<close>, which reads the world and returns the draw.
\<close>

record 'w numpy =
  np_log :: "pyfloat \<Rightarrow> pyfloat"
  np_random_geometric :: "pyfloat \<Rightarrow> (int, 'w) call"

text \<open>
  What the name \<open>np\<close> is bound to in the module \<open>geometric\<close>. The module's only import
  is \<open>from .distribution import Distribution\<close>, which binds \<open>Distribution\<close> and nothing
  else, and no line of the module assigns \<open>np\<close>: the name is not bound. Python looks a
  global name up when the expression runs, and raises \<open>NameError\<close> for a name that is
  not bound.
\<close>

definition geometric_np :: "'w numpy option" where
  "geometric_np = None"

record Geometric =
  p :: pyfloat

text \<open>
  \<open>Geometric.log_prob\<close>: \<open>np.log(self.p) + np.log(1 - self.p)*(value - 1)\<close>. The
  lookup of \<open>np\<close> comes first.
\<close>

definition Geometric_log_prob :: "Geometric \<Rightarrow> int \<Rightarrow> (pyfloat, 'w) call" where
  "Geometric_log_prob self v w =
     (case (geometric_np :: 'w numpy option) of
        None \<Rightarrow> (Inl NameError, w)
      | Some np \<Rightarrow>
          (Inr (fadd (np_log np (p self))
                     (fmul (np_log np (fsub (Finite 1) (p self)))
                           (ieee_round (real_of_int (v - 1))))), w))"

definition Geometric_sample :: "Geometric \<Rightarrow> (int \<times> pyfloat, 'w) call" where
  "Geometric_sample self w =
     (case (geometric_np :: 'w numpy option) of
        None \<Rightarrow> (Inl NameError, w)
      | Some np \<Rightarrow>
          (case np_random_geometric np (p self) w of
             (Inl e, w1) \<Rightarrow> (Inl e, w1)
           | (Inr n, w1) \<Rightarrow>
               (case Geometric_log_prob self n w1 of
                  (Inl e, w2) \<Rightarrow> (Inl e, w2)
                | (Inr lp, w2) \<Rightarrow> (Inr (n, lp), w2))))"

definition Geometric_argmax :: "Geometric \<Rightarrow> int \<Rightarrow> int" where
  "Geometric_argmax self idx = idx - 1"

text \<open>A \<open>Geometric\<close> object seen through the capability.\<close>

definition Geometric_dist :: "Geometric \<Rightarrow> (int, 'w) Distribution" where
  "Geometric_dist self =
     \<lparr>dist_sample = Geometric_sample self,
      dist_log_prob = Geometric_log_prob self,
      dist_argmax = (\<lambda>idx w. (Inr (RetBare (Geometric_argmax self idx)), w))\<rparr>"

section \<open>The categorical distribution over a vocabulary\<close>

record Tokenizer =
  vocab_size :: int
  convert_ids_to_tokens :: "int \<Rightarrow> string"

record LM =
  tokenizer :: Tokenizer

record Token =
  token_lm :: LM
  token_id :: int
  token_str :: string

record TokenCategorical =
  lm :: LM
  log_probs :: "pyfloat list"

text \<open>
  Indexing a sequence the way Python does: a negative index counts from the end, and
  an index outside the sequence raises.
\<close>

definition py_index :: "'a list \<Rightarrow> int \<Rightarrow> error + 'a" where
  "py_index xs i =
     (if 0 \<le> i \<and> i < int (length xs) then Inr (xs ! nat i)
      else if i < 0 \<and> - int (length xs) \<le> i then Inr (xs ! nat (int (length xs) + i))
      else Inl IndexError)"

text \<open>
  The indices that sort the values in ascending order, which is what the library
  function \<open>torch.argsort\<close> returns. Equal values keep their order here; the library
  leaves their order open.
\<close>

fun insert_key :: "pyfloat \<times> nat \<Rightarrow> (pyfloat \<times> nat) list \<Rightarrow> (pyfloat \<times> nat) list" where
  "insert_key x [] = [x]"
| "insert_key x (y # ys) = (if fle (fst x) (fst y) then x # y # ys else y # insert_key x ys)"

definition argsort :: "pyfloat list \<Rightarrow> nat list" where
  "argsort xs = map snd (foldr insert_key (zip xs [0 ..< length xs]) [])"

text \<open>The PyTorch module, as far as \<open>tokencategorical.py\<close> uses it.\<close>

record torch =
  torch_argsort :: "pyfloat list \<Rightarrow> nat list"

definition torch_library :: torch where
  "torch_library = \<lparr>torch_argsort = argsort\<rparr>"

text \<open>
  What the name \<open>torch\<close> is bound to in the module \<open>tokencategorical\<close>. The module
  imports \<open>Distribution\<close>, \<open>log_softmax\<close>, \<open>Token\<close> and \<open>numpy as np\<close>, and no line of
  it binds \<open>torch\<close>: the name is not bound.
\<close>

definition tokencategorical_torch :: "torch option" where
  "tokencategorical_torch = None"

text \<open>
  \<open>TokenCategorical.__init__\<close>. \<open>log_softmax\<close> is the numeric helper of the package's
  \<open>util\<close> module, a parameter of the model.
\<close>

definition TokenCategorical_init ::
  "(pyfloat list \<Rightarrow> pyfloat list) \<Rightarrow> LM \<Rightarrow> pyfloat list \<Rightarrow> error + TokenCategorical" where
  "TokenCategorical_init log_softmax l logits =
     (let lps = log_softmax logits in
      if vocab_size (tokenizer l) \<noteq> int (length logits) then Inl RuntimeError
      else Inr \<lparr>lm = l, log_probs = lps\<rparr>)"

definition TokenCategorical_log_prob :: "TokenCategorical \<Rightarrow> Token \<Rightarrow> error + pyfloat" where
  "TokenCategorical_log_prob self v = py_index (log_probs self) (token_id v)"

text \<open>
  The body of \<open>TokenCategorical.argmax\<close>, run in a module where the name \<open>torch\<close> has
  the given binding: \<open>tok = torch.argsort(self.log_probs)[-idx]\<close>, then the token and
  its log-probability.
\<close>

definition TokenCategorical_argmax_in ::
  "torch option \<Rightarrow> TokenCategorical \<Rightarrow> int \<Rightarrow> error + (Token \<times> pyfloat)" where
  "TokenCategorical_argmax_in binding self idx =
     (case binding of
        None \<Rightarrow> Inl NameError
      | Some t \<Rightarrow>
          (case py_index (torch_argsort t (log_probs self)) (- idx) of
             Inl e \<Rightarrow> Inl e
           | Inr tok \<Rightarrow>
               (case py_index (log_probs self) (int tok) of
                  Inl e \<Rightarrow> Inl e
                | Inr lp \<Rightarrow>
                    Inr (\<lparr>token_lm = lm self, token_id = int tok,
                          token_str = convert_ids_to_tokens (tokenizer (lm self)) (int tok)\<rparr>,
                         lp))))"

text \<open>\<open>TokenCategorical.argmax\<close>, in its own module.\<close>

definition TokenCategorical_argmax ::
  "TokenCategorical \<Rightarrow> int \<Rightarrow> error + (Token \<times> pyfloat)" where
  "TokenCategorical_argmax = TokenCategorical_argmax_in tokencategorical_torch"

section \<open>Example objects\<close>

text \<open>
  A distribution that always draws \<open>x\<close> with log-probability \<open>q\<close> and gives every value
  the log-probability \<open>lp\<close>, synchronously and asynchronously, in a world without state.
\<close>

definition constant_dist :: "int \<Rightarrow> pyfloat \<Rightarrow> pyfloat \<Rightarrow> (int, unit) AsyncDistribution" where
  "constant_dist x q lp =
     \<lparr>dist_sample = (\<lambda>w. (Inr (x, q), w)),
      dist_log_prob = (\<lambda>v w. (Inr lp, w)),
      dist_argmax = (\<lambda>k w. (Inr (RetPair x q), w)),
      dist_sample_async = (\<lambda>w. (Inr (x, q), w)),
      dist_log_prob_async = (\<lambda>v w. (Inr lp, w))\<rparr>"

text \<open>A language model with a vocabulary of two tokens.\<close>

definition two_token_lm :: LM where
  "two_token_lm =
     \<lparr>tokenizer = \<lparr>vocab_size = 2,
                    convert_ids_to_tokens = (\<lambda>i. if i = 0 then ''a'' else ''b'')\<rparr>\<rparr>"

section \<open>The store and deep copies\<close>




section \<open>Well-formed stores\<close>














section \<open>Cloning a particle\<close>










section \<open>Float arithmetic facts\<close>

subsection \<open>Rounding\<close>

lemma two_powi_pos: "0 < (2::real) powi k"
  by (simp add: zero_less_power_int)

lemma powr_two_int: "(2::real) powr real_of_int k = 2 powi k"
  by (simp add: powr_real_of_int')

lemma floor_log2_iff:
  "0 < x \<Longrightarrow> \<lfloor>log 2 x\<rfloor> = k \<longleftrightarrow> 2 powi k \<le> x \<and> x < 2 powi (k + 1)"
  using floor_log_eq_powr_iff [of x 2 k] powr_two_int [of k] powr_two_int [of "k + 1"]
  by simp

lemma floor_log2_lower: "0 < x \<Longrightarrow> 2 powi \<lfloor>log 2 x\<rfloor> \<le> x"
  using floor_log2_iff [of x "\<lfloor>log 2 x\<rfloor>"] by simp

lemma floor_log2_upper: "0 < x \<Longrightarrow> x < 2 powi (\<lfloor>log 2 x\<rfloor> + 1)"
  using floor_log2_iff [of x "\<lfloor>log 2 x\<rfloor>"] by simp

lemma floor_log2_eq: "2 powi k \<le> x \<Longrightarrow> x < 2 powi (k + 1) \<Longrightarrow> \<lfloor>log 2 x\<rfloor> = k"
proof -
  assume a: "2 powi k \<le> x" and b: "x < 2 powi (k + 1)"
  have "0 < x" using a two_powi_pos [of k] by linarith
  then show ?thesis
    using a b floor_log2_iff [of x k] by simp
qed

lemma round_even_int: "round_even (of_int n) = n"
  by (simp add: round_even_def)

lemma round_even_lower: "\<lfloor>x\<rfloor> \<le> round_even x"
  by (simp add: round_even_def Let_def)

lemma round_even_upper: "round_even x \<le> \<lceil>x\<rceil>"
proof (cases "x = of_int \<lfloor>x\<rfloor>")
  case True
  then have "round_even x = \<lfloor>x\<rfloor>" by (simp add: round_even_def Let_def)
  then show ?thesis by (simp add: floor_le_ceiling)
next
  case False
  then have "\<lceil>x\<rceil> = \<lfloor>x\<rfloor> + 1" by (metis ceiling_altdef)
  then show ?thesis by (simp add: round_even_def Let_def)
qed

lemma round_even_abs: "\<bar>x\<bar> < of_int N \<Longrightarrow> \<bar>round_even x\<bar> \<le> N"
proof -
  assume a: "\<bar>x\<bar> < of_int N"
  have "- N \<le> \<lfloor>x\<rfloor>" using a by (simp add: le_floor_iff) 
  moreover have "\<lceil>x\<rceil> \<le> N" using a by (simp add: ceiling_le_iff)
  ultimately show ?thesis using round_even_lower [of x] round_even_upper [of x] by linarith
qed


lemma two_powi_add: "(2::real) powi (a + b) = 2 powi a * 2 powi b"
  by (simp add: power_int_add)

lemma two_powi_less_D: "(2::real) powi a < 2 powi b \<Longrightarrow> a < b"
proof (rule ccontr)
  assume l: "(2::real) powi a < 2 powi b" and "\<not> a < b"
  then have "b \<le> a" by simp
  then have "(2::real) powi b \<le> 2 powi a" by (simp add: power_int_increasing)
  with l show False by simp
qed

lemma ieee_round_exact:
  assumes x: "x = of_int m * 2 powi k" and m: "\<bar>m\<bar> < 2 ^ 53" and k: "- 1074 \<le> k"
    and b: "\<bar>x\<bar> < 2 ^ 1024"
  shows "ieee_round x = Finite x"
proof (cases "x = 0")
  case True
  then show ?thesis by (simp add: ieee_round_def)
next
  case False
  define L where "L = \<lfloor>log 2 \<bar>x\<bar>\<rfloor>"
  define e where "e = max L (- 1022)"
  define q :: real where "q = 2 powi (e - 52)"
  have pos: "0 < \<bar>x\<bar>" using False by simp
  have lo: "2 powi L \<le> \<bar>x\<bar>"
    unfolding L_def using floor_log2_lower [OF pos] .
  have "\<bar>x\<bar> = of_int \<bar>m\<bar> * 2 powi k"
    using x by (simp add: abs_mult)
  also have "\<dots> < 2 ^ 53 * 2 powi k"
  proof -
    have "real_of_int \<bar>m\<bar> < 2 ^ 53" using m by simp
    then show ?thesis using two_powi_pos [of k] by (simp only: mult_strict_right_mono)
  qed
  also have "\<dots> = 2 powi (53 + k)"
    by (simp add: power_int_add)
  finally have "(2::real) powi L < 2 powi (53 + k)" using lo by linarith
  then have "L < 53 + k" by (rule two_powi_less_D)
  then have ek: "e - 52 \<le> k" using k by (simp add: e_def)
  define j where "j = nat (k - (e - 52))"
  have kj: "k = (e - 52) + int j" using ek by (simp add: j_def)
  have "(2::real) powi k = q * 2 ^ j"
    unfolding q_def by (subst kj) (simp add: power_int_add power_int_of_nat)
  then have xq: "x = of_int (m * 2 ^ j) * q" using x by simp
  have qpos: "0 < q" unfolding q_def by (rule two_powi_pos)
  then have "x / q = of_int (m * 2 ^ j)" using xq by simp
  then have "round_even (x / q) = m * 2 ^ j" by (simp only: round_even_int)
  then have y: "of_int (round_even (x / q)) * q = x" using xq by simp
  show ?thesis
    using False b y unfolding ieee_round_def Let_def L_def [symmetric] e_def [symmetric]
      q_def [symmetric]
    by simp
qed

lemma is_double_int: "\<bar>n\<bar> < 2 ^ 53 \<Longrightarrow> is_double (of_int n)"
proof -
  assume n: "\<bar>n\<bar> < 2 ^ 53"
  have "real_of_int \<bar>n\<bar> < 2 ^ 53" using n by simp
  then have "\<bar>real_of_int n\<bar> < 2 ^ 53" by simp
  also have "\<dots> < (2::real) ^ 1024" by simp
  finally have "\<bar>real_of_int n\<bar> < 2 ^ 1024" .
  then show ?thesis
    unfolding is_double_def using ieee_round_exact [of "of_int n" n 0] n by simp
qed


lemma ieee_round_idem:
  assumes r: "ieee_round x = Finite y"
  shows "ieee_round y = Finite y"
proof (cases "x = 0")
  case True
  then show ?thesis using r by (auto simp: ieee_round_def)
next
  case False
  define L where "L = \<lfloor>log 2 \<bar>x\<bar>\<rfloor>"
  define e where "e = max L (- 1022)"
  define q :: real where "q = 2 powi (e - 52)"
  define n where "n = round_even (x / q)"
  have qpos: "0 < q" unfolding q_def by (rule two_powi_pos)
  have r': "(if 2 ^ 1024 \<le> \<bar>of_int n * q\<bar> then (if 0 < x then PosInf else NegInf)
             else Finite (of_int n * q)) = Finite y"
    using r False unfolding ieee_round_def Let_def L_def [symmetric] e_def [symmetric]
      q_def [symmetric] n_def [symmetric]
    by simp
  have y: "y = of_int n * q" and b: "\<bar>y\<bar> < 2 ^ 1024"
    using r' by (auto split: if_splits)
  have pos: "0 < \<bar>x\<bar>" using False by simp
  have "\<bar>x\<bar> < 2 powi (L + 1)"
    unfolding L_def using floor_log2_upper [OF pos] .
  also have "\<dots> \<le> 2 powi (e + 1)"
    by (simp add: e_def power_int_increasing)
  also have "\<dots> = 2 ^ 53 * q"
  proof -
    have "(2::real) powi (e + 1) = 2 powi (53 + (e - 52))" by (simp add: algebra_simps)
    also have "\<dots> = 2 powi 53 * 2 powi (e - 52)" by (rule two_powi_add)
    finally show ?thesis by (simp add: q_def)
  qed
  finally have "\<bar>x\<bar> / q < 2 ^ 53"
    using qpos by (simp add: pos_divide_less_eq)
  then have "\<bar>x / q\<bar> < of_int (2 ^ 53)" using qpos by simp
  then have n53: "\<bar>n\<bar> \<le> 2 ^ 53" unfolding n_def by (rule round_even_abs)
  have e: "- 1074 \<le> e - 52" by (simp add: e_def)
  show ?thesis
  proof (cases "\<bar>n\<bar> < 2 ^ 53")
    case True
    show ?thesis
      using ieee_round_exact [of y n "e - 52"] y True e b by (simp add: q_def)
  next
    case False
    then have "\<bar>n\<bar> = 2 ^ 53" using n53 by simp
    then have "n = 9007199254740992 \<or> n = - 9007199254740992" by auto
    then have n2: "n = 2 * (n div 2)" and h: "\<bar>n div 2\<bar> < 2 ^ 53"
      by auto
    have "(2::real) powi (e - 51) = 2 * q"
    proof -
      have "(2::real) powi (e - 51) = 2 powi (1 + (e - 52))" by (simp add: algebra_simps)
      also have "\<dots> = 2 powi 1 * 2 powi (e - 52)" by (rule two_powi_add)
      finally show ?thesis by (simp add: q_def)
    qed
    moreover have "real_of_int n = 2 * of_int (n div 2)"
      using n2 by (metis of_int_mult of_int_numeral)
    ultimately have "y = of_int (n div 2) * 2 powi (e - 51)"
      using y by simp
    then show ?thesis
      using ieee_round_exact [of y "n div 2" "e - 51"] h e b by simp
  qed
qed

lemma ieee_round_numeral:
  "numeral k < (2::int) ^ 53 \<Longrightarrow> ieee_round (numeral k) = Finite (numeral k)"
  using is_double_int [of "numeral k"] by (simp add: is_double_def)

lemma ieee_round_neg_numeral:
  "numeral k < (2::int) ^ 53 \<Longrightarrow> ieee_round (- numeral k) = Finite (- numeral k)"
  using is_double_int [of "- numeral k"] by (simp add: is_double_def)

lemma ieee_round_zero: "ieee_round 0 = Finite 0"
  by (simp add: ieee_round_def)

lemma ieee_round_one: "ieee_round 1 = Finite 1"
  using is_double_int [of 1] by (simp add: is_double_def)

lemma ieee_round_neg_one: "ieee_round (- 1) = Finite (- 1)"
  using is_double_int [of "- 1"] by (simp add: is_double_def)

lemmas ieee_round_small =
  ieee_round_numeral ieee_round_neg_numeral ieee_round_zero ieee_round_one ieee_round_neg_one

text \<open>A tie goes to the even significand: \<open>1 + 2 ^ -53\<close> lies midway between two floats.\<close>

lemma floor_log2_tie: "\<lfloor>log 2 \<bar>1 + 1 / 2 ^ 53 :: real\<bar>\<rfloor> = 0"
  by (rule floor_log2_eq) simp_all

lemma ieee_round_tie: "ieee_round (1 + 1 / 2 ^ 53) = Finite 1"
  unfolding ieee_round_def Let_def floor_log2_tie
  by (simp add: round_even_def power_int_minus)

lemma ieee_round_below_one: "ieee_round (1 - 1 / 2 ^ 53) = Finite (1 - 1 / 2 ^ 53)"
  using ieee_round_exact [of "1 - 1 / 2 ^ 53" "2 ^ 53 - 1" "- 53"]
  by (simp add: power_int_minus field_simps)

lemma ieee_round_tiny: "ieee_round (1 / 2 ^ 53) = Finite (1 / 2 ^ 53)"
  using ieee_round_exact [of "1 / 2 ^ 53" 1 "- 53"]
  by (simp add: power_int_minus field_simps)

text \<open>The sum of the two largest powers of two is out of range.\<close>

lemma floor_log2_huge: "\<lfloor>log 2 \<bar>2 ^ 1024 :: real\<bar>\<rfloor> = 1024"
  by (rule floor_log2_eq) simp_all

lemma ieee_round_overflow: "ieee_round (- (2 ^ 1024)) = NegInf"
  unfolding ieee_round_def Let_def abs_minus_cancel floor_log2_huge
  by (simp add: round_even_def)

lemma ieee_round_large: "ieee_round (- (2 ^ 1023)) = Finite (- (2 ^ 1023))"
  using ieee_round_exact [of "- (2 ^ 1023)" "- 1" 1023] by simp

subsection \<open>Addition\<close>

lemma fadd_zero_right: "fadd (fadd a b) (Finite 0) = fadd a b"
proof (cases "fadd a b")
  case (Finite y)
  then have "ieee_round y = Finite y"
    by (cases a; cases b) (simp_all add: ieee_round_idem)
  then show ?thesis using Finite by simp
qed simp_all

section \<open>Sampling with a proposal\<close>

text \<open>
  Claim C1. In sample mode, when \<open>proposal.sample()\<close> returns \<open>(x, q)\<close> and
  \<open>dist.log_prob(x)\<close> returns \<open>lp\<close>, \<open>sample(dist, proposal)\<close> returns \<open>x\<close> and leaves the
  particle as it was but for the weight, which grows by \<open>lp - q\<close>; so \<open>finished\<close> and
  \<open>twist_amount\<close> keep their values. \<open>sample_async\<close> does the same with the asynchronous
  methods, and where these agree with the synchronous ones the two calls are equal,
  errors included.
\<close>

theorem sample_with_proposal:
  "(mode self = ''sample'' \<and> dist_sample prp w = (Inr (x, q), w1) \<and>
    dist_log_prob dst x w1 = (Inr lp, w2) \<longrightarrow>
      sample self dst (Some prp) w =
        (Inr (x, self\<lparr>weight := fadd (weight self) (fsub lp q)\<rparr>), w2)) \<and>
   (dist_sample_async aprp w = (Inr (x, q), w1) \<and>
    dist_log_prob_async adst x w1 = (Inr lp, w2) \<longrightarrow>
      sample_async self adst (Some aprp) w =
        (Inr (x, self\<lparr>weight := fadd (weight self) (fsub lp q)\<rparr>), w2)) \<and>
   (mode self = ''sample'' \<and> dist_sample_async aprp = dist_sample aprp \<and>
    dist_log_prob_async adst = dist_log_prob adst \<longrightarrow>
      sample_async self adst (Some aprp) w = sample self adst (Some aprp) w)"
  by (simp add: sample_def sample_async_def score_def split: prod.splits sum.splits)

theorem sample_with_proposal_witness:
  "sample Model_init (constant_dist 7 (Finite 0) (Finite (- 2)))
     (Some (constant_dist 1 (Finite (- 1)) (Finite 0))) () =
     (Inr (1, Model_init\<lparr>weight := Finite (- 1)\<rparr>), ()) \<and>
   sample_async Model_init (constant_dist 7 (Finite 0) (Finite (- 2)))
     (Some (constant_dist 1 (Finite (- 1)) (Finite 0))) () =
     (Inr (1, Model_init\<lparr>weight := Finite (- 1)\<rparr>), ()) \<and>
   sample_async Model_init (constant_dist 7 (Finite 0) (Finite (- 2)))
     (Some (constant_dist 1 (Finite (- 1)) (Finite 0))) () =
   sample Model_init (constant_dist 7 (Finite 0) (Finite (- 2)))
     (Some (constant_dist 1 (Finite (- 1)) (Finite 0))) ()"
  using sample_with_proposal [where self = Model_init
      and prp = "constant_dist 1 (Finite (- 1)) (Finite 0)"
      and aprp = "constant_dist 1 (Finite (- 1)) (Finite 0)"
      and dst = "constant_dist 7 (Finite 0) (Finite (- 2))"
      and adst = "constant_dist 7 (Finite 0) (Finite (- 2))"
      and w = "()" and ?w1.0 = "()" and ?w2.0 = "()"
      and x = 1 and q = "Finite (- 1)" and lp = "Finite (- 2)"]
  by (simp add: constant_dist_def Model_init_def fsub_def ieee_round_small)

section \<open>Twisting and untwisting\<close>

text \<open>
  Claim C2, as stated, fails twice over. First, \<open>untwist\<close> takes back all the twist the
  particle has accumulated, not only the last amount: after \<open>twist(1)\<close>, the calls
  \<open>twist(2)\<close> and \<open>untwist()\<close> leave weight 0 and twist amount 0, where both were 1.
  Second, the float sums round: a particle of weight 1 and twist amount 0 has weight 1
  after \<open>twist(2 ** -53)\<close>, the sum being a tie that goes to 1, and \<open>untwist()\<close> then
  subtracts \<open>2 ** -53\<close> exactly and leaves the float below 1.
\<close>

theorem twist_untwist_counterexample:
  "weight (twist Model_init (Finite 1)) = Finite 1 \<and>
   twist_amount (twist Model_init (Finite 1)) = Finite 1 \<and>
   weight (untwist (twist (twist Model_init (Finite 1)) (Finite 2))) = Finite 0 \<and>
   twist_amount (untwist (twist (twist Model_init (Finite 1)) (Finite 2))) = Finite 0 \<and>
   weight (untwist (twist (twist Model_init (Finite 1)) (Finite 2)))
     \<noteq> weight (twist Model_init (Finite 1)) \<and>
   twist_amount (untwist (twist (twist Model_init (Finite 1)) (Finite 2)))
     \<noteq> twist_amount (twist Model_init (Finite 1)) \<and>
   weight (score Model_init (Finite 1)) = Finite 1 \<and>
   twist_amount (score Model_init (Finite 1)) = Finite 0 \<and>
   weight (twist (score Model_init (Finite 1)) (Finite (1 / 2 ^ 53))) = Finite 1 \<and>
   weight (untwist (twist (score Model_init (Finite 1)) (Finite (1 / 2 ^ 53)))) =
     Finite (1 - 1 / 2 ^ 53) \<and>
   weight (untwist (twist (score Model_init (Finite 1)) (Finite (1 / 2 ^ 53))))
     \<noteq> weight (score Model_init (Finite 1))"
proof -
  note tie = ieee_round_tie [simplified] ieee_round_tiny [simplified]
    ieee_round_below_one [simplified]
  show ?thesis
    by (simp add: untwist_def twist_def score_def Model_init_def ieee_round_small tie)
qed

text \<open>
  Claim C2, amended. For a particle whose twist amount is 0 and a finite float \<open>amt\<close>
  that the weight takes without rounding (the exact sum of weight and \<open>amt\<close> is a
  float again; a weight that is infinite or NaN needs no rounding), \<open>twist(amt)\<close>
  followed by \<open>untwist()\<close> gives the particle back, weight and twist amount included.
\<close>

theorem twist_untwist_restores:
  assumes "twist_amount self = Finite 0" and "adds_exactly (weight self) amt"
  shows "untwist (twist self (Finite amt)) = self"
proof -
  have amt: "ieee_round amt = Finite amt"
    using assms(2) by (cases "weight self") (simp_all add: adds_exactly_def is_double_def)
  have t: "fadd (twist_amount self) (Finite amt) = Finite amt"
    using assms(1) amt by simp
  have w: "fadd (fadd (weight self) (Finite amt)) (Finite (- amt)) = weight self"
  proof (cases "weight self")
    case (Finite x)
    then have "is_double x" and "is_double (x + amt)"
      using assms(2) by (simp_all add: adds_exactly_def)
    then show ?thesis using Finite by (simp add: is_double_def)
  qed simp_all
  have "weight (untwist (twist self (Finite amt))) = weight self"
    using t w by (simp add: untwist_def twist_def score_def)
  then show ?thesis
    using assms(1) by (simp add: untwist_def twist_def score_def)
qed

theorem twist_untwist_restores_witness:
  "twist_amount (score Model_init (Finite 3)) = Finite 0 \<and>
   adds_exactly (weight (score Model_init (Finite 3))) 5 \<and>
   weight (twist (score Model_init (Finite 3)) (Finite 5)) = Finite 8 \<and>
   untwist (twist (score Model_init (Finite 3)) (Finite 5)) = score Model_init (Finite 3)"
proof -
  have a: "twist_amount (score Model_init (Finite 3)) = Finite 0"
    by (simp add: score_def Model_init_def)
  have b: "adds_exactly (weight (score Model_init (Finite 3))) 5"
    by (simp add: score_def Model_init_def adds_exactly_def is_double_def ieee_round_small)
  have c: "weight (twist (score Model_init (Finite 3)) (Finite 5)) = Finite 8"
    by (simp add: twist_def score_def Model_init_def ieee_round_small)
  show ?thesis
    using twist_untwist_restores [OF a b] a b c by simp
qed

section \<open>Conditioning on a false expression\<close>

text \<open>
  Claim C3, evaluated on the code. \<open>condition(False)\<close> does not set the weight: it
  adds minus infinity to it, and \<open>finish\<close> then untwists. On a particle that was
  twisted by minus infinity the untwist adds plus infinity, and the weight is NaN, not
  minus infinity. On a fresh particle \<open>condition(False)\<close> does leave minus infinity,
  but finite arguments can move the weight away from it: two calls \<open>twist(-2.0 ** 1023)\<close>
  overflow the twist amount to minus infinity, and \<open>untwist()\<close> makes the weight NaN.
  For every particle, \<open>condition(False)\<close> makes \<open>done_stepping()\<close> true and
  \<open>condition(True)\<close> changes nothing; the weight after \<open>condition(False)\<close> is minus
  infinity exactly when the weight before is neither plus infinity nor NaN and the
  twist amount neither minus infinity nor NaN.
\<close>

theorem condition_False_evaluated:
  "weight (twist Model_init NegInf) = NegInf \<and>
   twist_amount (twist Model_init NegInf) = NegInf \<and>
   weight (condition (twist Model_init NegInf) False) = NaN \<and>
   weight (condition Model_init False) = NegInf \<and>
   twist_amount (twist (condition Model_init False) (Finite (- (2 ^ 1023)))) =
     Finite (- (2 ^ 1023)) \<and>
   twist_amount (twist (twist (condition Model_init False) (Finite (- (2 ^ 1023))))
                   (Finite (- (2 ^ 1023)))) = NegInf \<and>
   weight (untwist (twist (twist (condition Model_init False) (Finite (- (2 ^ 1023))))
                      (Finite (- (2 ^ 1023))))) = NaN \<and>
   done_stepping (condition self False) \<and>
   condition self True = self \<and>
   (weight (condition self False) = NegInf \<longleftrightarrow>
      weight self \<noteq> PosInf \<and> weight self \<noteq> NaN \<and>
      twist_amount self \<noteq> NegInf \<and> twist_amount self \<noteq> NaN)"
proof -
  have big: "fadd (Finite 0) (Finite (- (2 ^ 1023))) = Finite (- (2 ^ 1023))"
    using ieee_round_large by simp
  have over: "fadd (Finite (- (2 ^ 1023))) (Finite (- (2 ^ 1023))) = NegInf"
    using ieee_round_overflow by simp
  have 1: "weight (twist Model_init NegInf) = NegInf \<and>
           twist_amount (twist Model_init NegInf) = NegInf \<and>
           weight (condition (twist Model_init NegInf) False) = NaN \<and>
           weight (condition Model_init False) = NegInf"
    by (simp add: condition_def finish_def untwist_def score_def twist_def Model_init_def)
  have t1: "twist_amount (twist (condition Model_init False) (Finite (- (2 ^ 1023)))) =
              Finite (- (2 ^ 1023))"
    unfolding twist_def score_def condition_def finish_def untwist_def Model_init_def
    using big by simp
  have t2: "twist_amount (twist (twist (condition Model_init False) (Finite (- (2 ^ 1023))))
              (Finite (- (2 ^ 1023)))) = NegInf"
    using t1 over by (simp add: twist_def score_def)
  have w2: "weight (twist (twist (condition Model_init False) (Finite (- (2 ^ 1023))))
              (Finite (- (2 ^ 1023)))) = NegInf"
    using 1 by (simp add: twist_def score_def)
  have 2: "weight (untwist (twist (twist (condition Model_init False) (Finite (- (2 ^ 1023))))
              (Finite (- (2 ^ 1023))))) = NaN"
    using t2 w2 by (simp add: untwist_def score_def)
  have 3: "done_stepping (condition self False) \<and> condition self True = self"
    by (simp add: condition_def done_stepping_def finish_def)
  have 4: "weight (condition self False) = NegInf \<longleftrightarrow>
      weight self \<noteq> PosInf \<and> weight self \<noteq> NaN \<and>
      twist_amount self \<noteq> NegInf \<and> twist_amount self \<noteq> NaN"
    by (cases "weight self"; cases "twist_amount self")
       (simp_all add: condition_def finish_def untwist_def score_def)
  show ?thesis
    using 1 t1 t2 2 3 4 by blast
qed

section \<open>The argmax methods\<close>

text \<open>
  Claim C4, evaluated on the code. A fresh particle has beam index 0, and \<open>sample\<close> in
  beam mode passes it to \<open>argmax\<close>. \<open>Geometric.argmax(0)\<close> returns the bare number
  \<open>-1\<close>, no pair and no outcome of the distribution, so that \<open>sample\<close> in beam mode
  raises when it unpacks the result. \<open>TokenCategorical.argmax\<close> raises \<open>NameError\<close> at
  the name \<open>torch\<close>, whatever the index. Were \<open>torch\<close> bound to the library, the
  method would index the ascending order at \<open>-0\<close>, its first place: over the
  log-probabilities of 1/4 and 3/4 it would return token 0, the least probable one,
  and the most probable token at index 1.
\<close>

theorem argmax_zero_evaluated:
  "beam_idx Model_init = 0 \<and>
   Geometric_argmax \<lparr>p = Finite (1/2)\<rparr> 0 = - 1 \<and>
   sample (Model_init\<lparr>mode := ''beam''\<rparr>) (Geometric_dist g) None w = (Inl TypeError, w) \<and>
   TokenCategorical_argmax tc k = Inl NameError \<and>
   TokenCategorical_argmax_in (Some torch_library)
       \<lparr>lm = l, log_probs = [Finite (ln (1/4)), Finite (ln (3/4))]\<rparr> 0 =
     Inr (\<lparr>token_lm = l, token_id = 0, token_str = convert_ids_to_tokens (tokenizer l) 0\<rparr>,
          Finite (ln (1/4))) \<and>
   TokenCategorical_argmax_in (Some torch_library)
       \<lparr>lm = l, log_probs = [Finite (ln (1/4)), Finite (ln (3/4))]\<rparr> 1 =
     Inr (\<lparr>token_lm = l, token_id = 1, token_str = convert_ids_to_tokens (tokenizer l) 1\<rparr>,
          Finite (ln (3/4))) \<and>
   ln (1/4) < ln (3/4 :: real)"
  by (simp add: Geometric_argmax_def sample_def Model_init_def Geometric_dist_def
      TokenCategorical_argmax_def TokenCategorical_argmax_in_def tokencategorical_torch_def
      torch_library_def argsort_def py_index_def upt_rec)

section \<open>Stepping the base class\<close>

text \<open>
  Claim C5, as stated, fails: on a finished particle the base \<open>step\<close> returns without
  an error.
\<close>

theorem step_counterexample:
  "done_stepping (finish Model_init) \<and> step (finish Model_init) = Inr (finish Model_init)"
  by (simp add: step_def done_stepping_def finish_def)

text \<open>
  Claim C5, amended. The base \<open>step\<close> raises \<open>NotImplementedError\<close> exactly when
  \<open>done_stepping()\<close> is false; when it is true, \<open>step\<close> returns and leaves the particle
  as it was.
\<close>

theorem step_raises_iff_running:
  "step self = (if done_stepping self then Inr self else Inl NotImplementedError) \<and>
   ((\<exists>e. step self = Inl e) \<longleftrightarrow> \<not> done_stepping self) \<and>
   step (finish self) = Inr (finish self) \<and>
   step Model_init = Inl NotImplementedError"
  by (simp add: step_def done_stepping_def finish_def Model_init_def)

section \<open>Observing a value\<close>

text \<open>
  Claim C6, evaluated on the code. When \<open>dist.log_prob(x)\<close> returns \<open>lp\<close>,
  \<open>observe(dist, x)\<close> returns \<open>x\<close> and the particle with \<open>lp\<close> added to its weight and
  nothing else changed; when \<open>dist.log_prob(x)\<close> raises, so does \<open>observe\<close>. For the
  geometric distribution it raises: \<open>Geometric.log_prob\<close> stops with \<open>NameError\<close> at
  the name \<open>np\<close>, for every rate and value, so that \<open>observe(Geometric(0.5), 3)\<close> on a
  fresh particle raises \<open>NameError\<close> and the weight of the particle stays 0.
\<close>

theorem observe_scores_log_prob:
  "(dist_log_prob dst x w = (Inr lp, w1) \<longrightarrow>
      observe self dst x w = (Inr (x, self\<lparr>weight := fadd (weight self) lp\<rparr>), w1)) \<and>
   (dist_log_prob dst x w = (Inl e, w1) \<longrightarrow> observe self dst x w = (Inl e, w1)) \<and>
   Geometric_log_prob g v w0 = (Inl NameError, w0) \<and>
   observe Model_init (Geometric_dist \<lparr>p = Finite (1/2)\<rparr>) 3 w0 = (Inl NameError, w0) \<and>
   weight Model_init = Finite 0"
  by (simp add: observe_def score_def Geometric_dist_def Geometric_log_prob_def
      geometric_np_def Model_init_def)

theorem observe_scores_log_prob_witness:
  "dist_log_prob (constant_dist 1 (Finite 0) (Finite (- 3))) 4 () = (Inr (Finite (- 3)), ()) \<and>
   observe (score Model_init (Finite 2)) (constant_dist 1 (Finite 0) (Finite (- 3))) 4 () =
      (Inr (4, Model_init\<lparr>weight := Finite (- 1)\<rparr>), ()) \<and>
   dist_log_prob (Geometric_dist \<lparr>p = Finite (1/2)\<rparr>) 3 () = (Inl NameError, ()) \<and>
   observe (score Model_init (Finite 2)) (Geometric_dist \<lparr>p = Finite (1/2)\<rparr>) 3 () =
      (Inl NameError, ())"
proof -
  have h: "dist_log_prob (constant_dist 1 (Finite 0) (Finite (- 3))) 4 () =
             (Inr (Finite (- 3)), ())"
    by (simp add: constant_dist_def)
  have k: "dist_log_prob (Geometric_dist \<lparr>p = Finite (1/2)\<rparr>) 3 () = (Inl NameError, ())"
    by (simp add: Geometric_dist_def Geometric_log_prob_def geometric_np_def)
  have "observe (score Model_init (Finite 2)) (constant_dist 1 (Finite 0) (Finite (- 3))) 4 () =
      (Inr (4, Model_init\<lparr>weight := Finite (- 1)\<rparr>), ())"
    using h observe_scores_log_prob [where dst = "constant_dist 1 (Finite 0) (Finite (- 3))"
        and x = 4 and w = "()" and lp = "Finite (- 3)" and ?w1.0 = "()"
        and self = "score Model_init (Finite 2)" and g = "\<lparr>p = Finite (1/2)\<rparr>" and v = 3
        and ?w0.0 = "()" and e = NameError]
    by (simp add: score_def Model_init_def ieee_round_small)
  moreover have "observe (score Model_init (Finite 2)) (Geometric_dist \<lparr>p = Finite (1/2)\<rparr>) 3 () =
      (Inl NameError, ())"
    using k observe_scores_log_prob [where dst = "Geometric_dist \<lparr>p = Finite (1/2)\<rparr>"
        and x = 3 and w = "()" and e = NameError and ?w1.0 = "()" and lp = NaN
        and self = "score Model_init (Finite 2)" and g = "\<lparr>p = Finite (1/2)\<rparr>" and v = 3
        and ?w0.0 = "()"]
    by simp
  ultimately show ?thesis using h k by simp
qed

section \<open>Constructing a categorical distribution\<close>

text \<open>
  Claim C8. \<open>TokenCategorical(lm, logits)\<close> raises \<open>RuntimeError\<close> in the constructor
  when the number of logits differs from the tokenizer's vocabulary size, and
  otherwise returns the object, with the log-softmax of the logits.
\<close>

theorem TokenCategorical_init_checks_length:
  "(vocab_size (tokenizer l) \<noteq> int (length logits) \<longrightarrow>
      TokenCategorical_init log_softmax l logits = Inl RuntimeError) \<and>
   (vocab_size (tokenizer l) = int (length logits) \<longrightarrow>
      TokenCategorical_init log_softmax l logits =
        Inr \<lparr>lm = l, log_probs = log_softmax logits\<rparr>)"
  by (simp add: TokenCategorical_init_def)

theorem TokenCategorical_init_checks_length_witness:
  "TokenCategorical_init (\<lambda>xs. xs) two_token_lm [Finite 0] = Inl RuntimeError \<and>
   TokenCategorical_init (\<lambda>xs. xs) two_token_lm [Finite 0, Finite 1] =
     Inr \<lparr>lm = two_token_lm, log_probs = [Finite 0, Finite 1]\<rparr>"
  using TokenCategorical_init_checks_length [of two_token_lm "[Finite 0]" "\<lambda>xs. xs"]
    TokenCategorical_init_checks_length [of two_token_lm "[Finite 0, Finite 1]" "\<lambda>xs. xs"]
  by (simp add: two_token_lm_def)

section \<open>Finishing twice\<close>

text \<open>
  Claim C9. After \<open>finish()\<close> the twist amount is 0 and the particle is finished, and
  a second \<open>finish()\<close> leaves the particle, every attribute of it, as the first one did.
\<close>

theorem finish_idempotent:
  "twist_amount (finish self) = Finite 0 \<and> finished (finish self) = True \<and>
   finish (finish self) = finish self"
  by (simp add: finish_def untwist_def score_def fadd_zero_right)

section \<open>Resetting\<close>

text \<open>
  Claim C10. \<open>reset()\<close> gives the six core attributes the values that \<open>__init__\<close> gives
  them; the particles differ at most in the attributes a subclass added.
\<close>

theorem reset_restores_core:
  "weight (reset self) = Finite 0 \<and> finished (reset self) = False \<and>
   mode (reset self) = ''sample'' \<and> beam_idx (reset self) = 0 \<and>
   force_eos (reset self) = False \<and> twist_amount (reset self) = Finite 0 \<and>
   reset self = Model_init\<lparr>attrs := attrs self\<rparr>"
  by (simp add: reset_def Model_init_def)

section \<open>Forking a particle\<close>

subsection \<open>Memos that grow\<close>







subsection \<open>The invariant of a copy\<close>




subsection \<open>A deep copy returns and is faithful\<close>














subsection \<open>The loop over the attributes\<close>



subsection \<open>Reachable objects and unfoldings\<close>














end
